theory Spec2Isabelle
  imports Complex_Main
begin

section \<open>The rule check-image-size, embedded in HOL\<close>

text \<open>
  The rule lives in \<^verbatim>\<open>src/rules/check-image-size.js\<close>. It is one closure
  (\<^verbatim>\<open>create\<close>) with four inner functions: \<^verbatim>\<open>shouldIgnoreFile\<close>,
  \<^verbatim>\<open>parseSvgContent\<close>, \<^verbatim>\<open>checkSvgContent\<close> and \<^verbatim>\<open>checkSvgFile\<close>.
  The embedding keeps this structure. What the rule takes from its host (the file system, the
  working directory, the XML parser of \<^verbatim>\<open>@xmldom/xmldom\<close> and the regular expressions of
  the language) is a parameter of the model, the record \<open>env\<close>.

  Conventions of the embedding:
  \<^item> a JavaScript number is \<open>NaN\<close> or an exact rational \<open>Num q\<close>; rounding of doubles,
    infinities and the sign of zero are not modelled, so the model agrees with the program
    on integers below \<open>2^53\<close> and ratios that are exact doubles;
  \<^item> a value that may be \<^verbatim>\<open>null\<close> or \<^verbatim>\<open>undefined\<close> is an \<open>option\<close>;
  \<^item> a thrown exception is \<open>Inl\<close> of its message;
  \<^item> \<^verbatim>\<open>context.report\<close> appends to the list \<open>reports\<close> of the state; every report of
    the rule carries the same location (line 1, column 0), which is left out;
  \<^item> the \<^verbatim>\<open>async\<close> functions are run to completion in sequence.
\<close>

subsection \<open>Numbers, truthiness and parseInt\<close>

datatype number = NaN | Num rat

definition truthy_number :: "number \<Rightarrow> bool" where
  "truthy_number n = (case n of NaN \<Rightarrow> False | Num q \<Rightarrow> q \<noteq> 0)"

definition truthy_string :: "string option \<Rightarrow> bool" where
  "truthy_string v = (case v of None \<Rightarrow> False | Some s \<Rightarrow> s \<noteq> [])"

definition js_times :: "number \<Rightarrow> number \<Rightarrow> number" where
  "js_times a b = (case (a, b) of (Num x, Num y) \<Rightarrow> Num (x * y) | _ \<Rightarrow> NaN)"

definition js_greater :: "number \<Rightarrow> number \<Rightarrow> bool" where
  "js_greater a b = (case (a, b) of (Num x, Num y) \<Rightarrow> x > y | _ \<Rightarrow> False)"

text \<open>\<^verbatim>\<open>a || b\<close> on values that are strings or null.\<close>

definition js_or :: "string option \<Rightarrow> string option \<Rightarrow> string option" where
  "js_or a b = (if truthy_string a then a else b)"

text \<open>The conversion of \<^verbatim>\<open>parseInt\<close>'s first argument to a string: \<^verbatim>\<open>null\<close> becomes "null".\<close>

definition ToString :: "string option \<Rightarrow> string" where
  "ToString v = (case v of None \<Rightarrow> ''null'' | Some s \<Rightarrow> s)"

text \<open>The white space that \<^verbatim>\<open>parseInt\<close> strips, within ASCII: TAB, LF, VT, FF, CR, SP.\<close>

definition is_white_space :: "char \<Rightarrow> bool" where
  "is_white_space c = (c \<in> set [CHR 0x09, CHR 0x0A, CHR 0x0B, CHR 0x0C, CHR 0x0D, CHR 0x20])"

definition is_digit :: "char \<Rightarrow> bool" where
  "is_digit c = (c \<in> set ''0123456789'')"

definition digit_value :: "char \<Rightarrow> int" where
  "digit_value c = int (of_char c) - 48"

definition digits_value :: "string \<Rightarrow> int" where
  "digits_value ds = foldl (\<lambda>acc c. acc * 10 + digit_value c) 0 ds"

text \<open>The sign that \<^verbatim>\<open>parseInt\<close> reads after the white space, and what follows it.\<close>

definition split_sign :: "string \<Rightarrow> int \<times> string" where
  "split_sign s =
     (case s of
        [] \<Rightarrow> (1, s)
      | c # t \<Rightarrow> if c = CHR ''-'' then (- 1, t) else if c = CHR ''+'' then (1, t) else (1, s))"


text \<open>\<^verbatim>\<open>parseInt(v, 10)\<close>: with radix 10 given, no \<^verbatim>\<open>0x\<close> prefix is recognised.\<close>

definition parseInt :: "string option \<Rightarrow> number" where
  "parseInt v =
     (let s = dropWhile is_white_space (ToString v);
          sign = fst (split_sign s);
          ds = takeWhile is_digit (snd (split_sign s))
      in if ds = [] then NaN else Num (of_int (sign * digits_value ds)))"

text \<open>\<^verbatim>\<open>href.startsWith(p)\<close>.\<close>

definition startsWith :: "string \<Rightarrow> string \<Rightarrow> bool" where
  "startsWith s p = (take (length p) s = p)"

subsection \<open>The document\<close>

text \<open>
  An element has a name, attributes and child elements. Text, comments and other nodes
  play no role in the rule, which reads \<^verbatim>\<open>nodeName\<close>, \<^verbatim>\<open>getAttribute\<close> and
  \<^verbatim>\<open>getElementsByTagName\<close> only.
\<close>

datatype element =
  Element (nodeName: string) (attributes: "(string \<times> string) list") (childElements: "element list")

datatype document = Document (documentElement: "element option")

text \<open>\<^verbatim>\<open>getAttribute\<close>: the value, or nothing when the attribute is absent (older xmldom
  versions give the empty string there; both are falsy and both parse to \<open>NaN\<close>).\<close>

definition getAttribute :: "element \<Rightarrow> string \<Rightarrow> string option" where
  "getAttribute e n = map_of (attributes e) n"

text \<open>The descendants of an element in document order (pre-order), the element itself excluded.\<close>

fun descendants :: "element \<Rightarrow> element list" where
  "descendants (Element n a cs) = concat (map (\<lambda>c. c # descendants c) cs)"

definition getElementsByTagName :: "element \<Rightarrow> string \<Rightarrow> element list" where
  "getElementsByTagName e n = filter (\<lambda>x. nodeName x = n) (descendants e)"

subsection \<open>Host, options, diagnostics and state\<close>

record env =
  relative :: "string \<Rightarrow> string"
  readFile :: "string \<Rightarrow> string + string"
  parseFromString :: "string \<Rightarrow> string + document option"
  regExp :: "string \<Rightarrow> string + (string \<Rightarrow> bool)"

text \<open>
  \<^item> \<open>relative\<close> is \<^verbatim>\<open>path.relative(process.cwd(), filePath)\<close>;
  \<^item> \<open>readFile\<close> is \<^verbatim>\<open>fs.readFile(filePath, 'utf8')\<close>: the content, or the message of the
    rejection;
  \<^item> \<open>parseFromString\<close> is \<^verbatim>\<open>new DOMParser().parseFromString(content, 'application/xml')\<close>:
    it throws, or returns nothing, or returns a document, which may lack a root element;
  \<^item> \<open>regExp src\<close> is \<^verbatim>\<open>new RegExp(src)\<close>: a syntax error, or the function
    \<^verbatim>\<open>test\<close> of the regular expression.
\<close>

record options =
  maxSizeRatio :: "rat option"
  ignorePaths :: "string list option"

datatype diagnostic =
    OversizedImage (imageWidth: number) (imageHeight: number)
      (svgWidth: number) (svgHeight: number) (filename: string)
  | InvalidSvg (error: string)
  | MissingSvgDimensions

record state =
  reports :: "diagnostic list"
  reads :: "string list"
  parses :: "string list"

definition init_state :: state where
  "init_state = \<lparr>reports = [], reads = [], parses = []\<rparr>"

definition report :: "diagnostic \<Rightarrow> state \<Rightarrow> state" where
  "report d st = st\<lparr>reports := reports st @ [d]\<rparr>"

subsection \<open>create\<close>

text \<open>\<^verbatim>\<open>const options = context.options[0] || {}\<close>\<close>

definition options_of :: "options option \<Rightarrow> options" where
  "options_of c = (case c of None \<Rightarrow> \<lparr>maxSizeRatio = None, ignorePaths = None\<rparr> | Some opts \<Rightarrow> opts)"

text \<open>\<^verbatim>\<open>const maxSizeRatio = options.maxSizeRatio || 2\<close>\<close>

definition maxSizeRatio_of :: "options option \<Rightarrow> number" where
  "maxSizeRatio_of c =
     (case maxSizeRatio (options_of c) of
        None \<Rightarrow> Num 2
      | Some k \<Rightarrow> if truthy_number (Num k) then Num k else Num 2)"

text \<open>\<^verbatim>\<open>const ignorePaths = options.ignorePaths || []\<close>\<close>

definition ignorePaths_of :: "options option \<Rightarrow> string list" where
  "ignorePaths_of c = (case ignorePaths (options_of c) of None \<Rightarrow> [] | Some ps \<Rightarrow> ps)"

subsection \<open>shouldIgnoreFile\<close>

text \<open>\<^verbatim>\<open>ignorePath.replace('*', '.*')\<close>: a string pattern replaces the first occurrence only.\<close>

fun replace_star :: "string \<Rightarrow> string" where
  "replace_star [] = []"
| "replace_star (c # cs) = (if c = CHR ''*'' then ''.*'' @ cs else c # replace_star cs)"

text \<open>\<^verbatim>\<open>ignorePaths.some(...)\<close>: the patterns in order, stopping at the first that matches;
  a pattern that is no regular expression throws out of the loop.\<close>

fun some_ignorePath :: "env \<Rightarrow> string \<Rightarrow> string list \<Rightarrow> string + bool" where
  "some_ignorePath E relativePath [] = Inr False"
| "some_ignorePath E relativePath (ignorePath # rest) =
     (case regExp E (replace_star ignorePath) of
        Inl msg \<Rightarrow> Inl msg
      | Inr test \<Rightarrow> if test relativePath then Inr True else some_ignorePath E relativePath rest)"

definition shouldIgnoreFile :: "env \<Rightarrow> options option \<Rightarrow> string \<Rightarrow> string + bool" where
  "shouldIgnoreFile E c filePath = some_ignorePath E (relative E filePath) (ignorePaths_of c)"

subsection \<open>parseSvgContent and checkSvgContent\<close>

definition parseSvgContent :: "env \<Rightarrow> string \<Rightarrow> string + document option" where
  "parseSvgContent E content = parseFromString E content"

text \<open>The message of the TypeError that \<^verbatim>\<open>doc.documentElement\<close> throws when the parser
  returned nothing (the text is the one of V8).\<close>

definition undefined_message :: string where
  "undefined_message = ''Cannot read properties of undefined (reading 'documentElement')''"

text \<open>The loop over \<^verbatim>\<open>images\<close>.\<close>

fun scan_images :: "number \<Rightarrow> number \<Rightarrow> number \<Rightarrow> string \<Rightarrow> element list \<Rightarrow> state \<Rightarrow> state" where
  "scan_images svgW svgH k fname [] st = st"
| "scan_images svgW svgH k fname (img # rest) st =
     (let imageW = parseInt (getAttribute img ''width'');
          imageH = parseInt (getAttribute img ''height'');
          href = js_or (getAttribute img ''href'') (getAttribute img ''xlink:href'')
      in if \<not> truthy_number imageW \<or> \<not> truthy_number imageH \<or> \<not> truthy_string href
         then scan_images svgW svgH k fname rest st
         else if startsWith (ToString href) ''data:image''
           then if js_greater imageW (js_times svgW k) \<or> js_greater imageH (js_times svgH k)
             then scan_images svgW svgH k fname rest
                    (report (OversizedImage imageW imageH svgW svgH fname) st)
             else scan_images svgW svgH k fname rest st
           else scan_images svgW svgH k fname rest st)"

definition checkSvgContent :: "env \<Rightarrow> options option \<Rightarrow> string \<Rightarrow> string \<Rightarrow> state \<Rightarrow> state" where
  "checkSvgContent E c filePath content st =
     (let st1 = st\<lparr>parses := parses st @ [content]\<rparr> in
      case parseSvgContent E content of
        Inl msg \<Rightarrow> report (InvalidSvg msg) st1
      | Inr None \<Rightarrow> report (InvalidSvg undefined_message) st1
      | Inr (Some doc) \<Rightarrow>
          (case documentElement doc of
             None \<Rightarrow> report (InvalidSvg ''Not a valid SVG file'') st1
           | Some svg \<Rightarrow>
               if nodeName svg \<noteq> ''svg'' then report (InvalidSvg ''Not a valid SVG file'') st1
               else
                 let svgW = parseInt (getAttribute svg ''width'');
                     svgH = parseInt (getAttribute svg ''height'')
                 in if \<not> truthy_number svgW \<or> \<not> truthy_number svgH
                    then report MissingSvgDimensions st1
                    else scan_images svgW svgH (maxSizeRatio_of c) (relative E filePath)
                           (getElementsByTagName svg ''image'') st1))"

subsection \<open>checkSvgFile\<close>

definition checkSvgFile :: "env \<Rightarrow> options option \<Rightarrow> string \<Rightarrow> state \<Rightarrow> state" where
  "checkSvgFile E c filePath st =
     (case shouldIgnoreFile E c filePath of
        Inl msg \<Rightarrow> report (InvalidSvg msg) st
      | Inr True \<Rightarrow> st
      | Inr False \<Rightarrow>
          (let st1 = st\<lparr>reads := reads st @ [filePath]\<rparr> in
           case readFile E filePath of
             Inl msg \<Rightarrow> report (InvalidSvg msg) st1
           | Inr content \<Rightarrow> checkSvgContent E c filePath content st1))"

subsection \<open>Program\<close>

text \<open>The handler of the rule: one run of \<^verbatim>\<open>checkSvgFile\<close> on the file of the context,
  from a state without reports.\<close>

definition Program :: "env \<Rightarrow> options option \<Rightarrow> string \<Rightarrow> state" where
  "Program E c fname = checkSvgFile E c fname init_state"

section \<open>Notions of the specification\<close>

text \<open>A dimension is resolved when the parsed attribute is truthy, which is how the rule
  tests it (\<^verbatim>\<open>!svgWidth\<close>, \<^verbatim>\<open>!imageWidth\<close>).\<close>

definition resolved :: "string option \<Rightarrow> bool" where
  "resolved v = truthy_number (parseInt v)"

text \<open>The reference of an image element as the rule reads it.\<close>

definition reference :: "element \<Rightarrow> string option" where
  "reference img = js_or (getAttribute img ''href'') (getAttribute img ''xlink:href'')"

text \<open>The reference in the words of the specification: \<^verbatim>\<open>href\<close>, and
  \<^verbatim>\<open>xlink:href\<close> when \<^verbatim>\<open>href\<close> is absent.\<close>

definition spec_reference :: "element \<Rightarrow> string option" where
  "spec_reference img =
     (case getAttribute img ''href'' of
        Some h \<Rightarrow> Some h
      | None \<Rightarrow> getAttribute img ''xlink:href'')"

text \<open>An element is eligible when its reference is a non-empty string with the prefix.\<close>

definition eligible :: "element \<Rightarrow> bool" where
  "eligible img = (truthy_string (reference img) \<and> startsWith (ToString (reference img)) ''data:image'')"

text \<open>An embedded image: eligible, with both dimensions resolved.\<close>

definition embedded_image :: "element \<Rightarrow> bool" where
  "embedded_image img =
     (resolved (getAttribute img ''width'') \<and> resolved (getAttribute img ''height'') \<and> eligible img)"




text \<open>An input that is empty or consists of white space.\<close>

definition blank :: "string \<Rightarrow> bool" where
  "blank s = list_all is_white_space s"

text \<open>What a parser delivers when it finds no root element: an exception, nothing, or a
  document without \<^verbatim>\<open>documentElement\<close>.\<close>

definition no_root :: "string + document option \<Rightarrow> bool" where
  "no_root r =
     (case r of
        Inl msg \<Rightarrow> True
      | Inr None \<Rightarrow> True
      | Inr (Some doc) \<Rightarrow> documentElement doc = None)"

text \<open>A parser that finds no root element in blank input, as every XML parser does: a
  root element starts with \<^verbatim>\<open><\<close>.\<close>

definition rejects_blank :: "(string \<Rightarrow> string + document option) \<Rightarrow> bool" where
  "rejects_blank parser = (\<forall>s. blank s \<longrightarrow> no_root (parser s))"




section \<open>A concrete host\<close>

text \<open>
  For statements about concrete inputs the host is instantiated: regular expressions over
  ordinary characters, \<^verbatim>\<open>.\<close> and \<^verbatim>\<open>*\<close>, as JavaScript reads them; a working
  directory; a parser that is a table. The other syntax characters of regular expressions
  are outside this fragment, and \<open>simple_regExp\<close> refuses a source that contains one.
\<close>

datatype atom = AnyChar | Literal char

definition atom_of :: "char \<Rightarrow> atom" where
  "atom_of c = (if c = CHR ''.'' then AnyChar else Literal c)"

text \<open>\<^verbatim>\<open>.\<close> matches every character but the line terminators.\<close>

definition atom_matches :: "atom \<Rightarrow> char \<Rightarrow> bool" where
  "atom_matches a c = (case a of AnyChar \<Rightarrow> c \<noteq> CHR 0x0A \<and> c \<noteq> CHR 0x0D | Literal l \<Rightarrow> c = l)"

text \<open>Atoms, each with or without a star; a star with no atom before it is "nothing to
  repeat".\<close>

fun parse_atoms :: "string \<Rightarrow> (atom \<times> bool) list option" where
  "parse_atoms [] = Some []"
| "parse_atoms [c] = (if c = CHR ''*'' then None else Some [(atom_of c, False)])"
| "parse_atoms (c # d # cs) =
     (if c = CHR ''*'' then None
      else if d = CHR ''*'' then map_option (Cons (atom_of c, True)) (parse_atoms cs)
      else map_option (Cons (atom_of c, False)) (parse_atoms (d # cs)))"

text \<open>A match of the atoms at the start of the subject.\<close>

function match_here :: "(atom \<times> bool) list \<Rightarrow> string \<Rightarrow> bool" where
  "match_here [] s = True"
| "match_here ((a, starred) # r) s =
     (if starred
      then match_here r s \<or> (case s of [] \<Rightarrow> False | c # t \<Rightarrow> atom_matches a c \<and> match_here ((a, starred) # r) t)
      else (case s of [] \<Rightarrow> False | c # t \<Rightarrow> atom_matches a c \<and> match_here r t))"
  by pat_completeness auto
termination
  by (relation "measure (\<lambda>(r, s). length s + length r)") auto

text \<open>\<^verbatim>\<open>test\<close>: a match at some position of the subject.\<close>

fun match_somewhere :: "(atom \<times> bool) list \<Rightarrow> string \<Rightarrow> bool" where
  "match_somewhere r [] = match_here r []"
| "match_somewhere r (c # t) = (match_here r (c # t) \<or> match_somewhere r t)"

definition outside_fragment :: "char \<Rightarrow> bool" where
  "outside_fragment c = (c \<in> set (CHR 0x5C # ''^$+?()[]{}|''))"

definition simple_regExp :: "string \<Rightarrow> string + (string \<Rightarrow> bool)" where
  "simple_regExp src =
     (if list_ex outside_fragment src then Inl (''Not modelled: /'' @ src @ ''/'')
      else case parse_atoms src of
             None \<Rightarrow> Inl (''Invalid regular expression: /'' @ src @ ''/: Nothing to repeat'')
           | Some r \<Rightarrow> Inr (match_somewhere r))"

text \<open>\<^verbatim>\<open>path.relative\<close> for a file below the working directory \<^verbatim>\<open>/work\<close>.\<close>

definition relative_work :: "string \<Rightarrow> string" where
  "relative_work p = (if startsWith p ''/work/'' then drop 6 p else p)"

text \<open>The text of an element, attributes in single quotes.\<close>

fun xml_of :: "element \<Rightarrow> string" where
  "xml_of (Element n a cs) =
     ''<'' @ n @ concat (map (\<lambda>(k, v). '' '' @ k @ ''='' @ [CHR 0x27] @ v @ [CHR 0x27]) a) @ ''>''
       @ concat (map xml_of cs) @ ''</'' @ n @ ''>''"

text \<open>A parser that knows one document: it answers the text of \<open>r\<close> with the document of
  root \<open>r\<close>. On blank input it behaves as xmldom 0.8 does: nothing for the empty string, a
  document without root for white space. Every other input is outside the table.\<close>

definition table_parser :: "element \<Rightarrow> string \<Rightarrow> string + document option" where
  "table_parser r s =
     (if s = [] then Inr None
      else if blank s then Inr (Some (Document None))
      else if s = xml_of r then Inr (Some (Document (Some r)))
      else Inl ''Not modelled'')"

text \<open>A host whose files all read as \<open>content\<close>.\<close>

definition host :: "string \<Rightarrow> element \<Rightarrow> env" where
  "host content r =
     \<lparr>relative = relative_work,
      readFile = (\<lambda>p. Inr content),
      parseFromString = table_parser r,
      regExp = simple_regExp\<rparr>"

text \<open>The host of a file that holds the text of \<open>r\<close>.\<close>

definition host_of :: "element \<Rightarrow> env" where
  "host_of r = host (xml_of r) r"

text \<open>Elements of the examples.\<close>

definition data_png :: string where
  "data_png = ''data:image/png;base64,AA==''"

definition image_elem :: "string \<Rightarrow> string \<Rightarrow> (string \<times> string) list \<Rightarrow> element" where
  "image_elem w h refs = Element ''image'' ([(''width'', w), (''height'', h)] @ refs) []"

definition svg_elem :: "string \<Rightarrow> string \<Rightarrow> element list \<Rightarrow> element" where
  "svg_elem w h cs = Element ''svg'' [(''width'', w), (''height'', h)] cs"




definition upper_root :: element where
  "upper_root = Element ''SVG'' [(''width'', ''100''), (''height'', ''100'')]
     [image_elem ''900'' ''900'' [(''href'', data_png)]]"




definition upper_reference :: element where
  "upper_reference = image_elem ''900'' ''900'' [(''href'', ''DATA:IMAGE/png;base64,AA=='')]"

definition empty_href :: element where
  "empty_href = image_elem ''300'' ''300'' [(''href'', []), (''xlink:href'', data_png)]"

definition one_oversized :: element where
  "one_oversized = svg_elem ''100'' ''100'' [image_elem ''300'' ''300'' [(''href'', data_png)]]"

definition one_compliant :: element where
  "one_compliant = svg_elem ''100'' ''100'' [image_elem ''150'' ''150'' [(''href'', data_png)]]"


section \<open>Properties\<close>

subsection \<open>The loop and its two exits\<close>


lemma scan_images_skip:
  "\<not> embedded_image img \<Longrightarrow>
   scan_images svgW svgH k fname (img # rest) st = scan_images svgW svgH k fname rest st"
  by (auto simp add: Let_def embedded_image_def resolved_def eligible_def reference_def)



subsection \<open>parseInt\<close>






















subsection \<open>References and ignore patterns\<close>

lemma reference_cases:
  "reference img =
     (case getAttribute img ''href'' of
        None \<Rightarrow> getAttribute img ''xlink:href''
      | Some h \<Rightarrow> if h = [] then getAttribute img ''xlink:href'' else Some h)"
  by (simp add: reference_def js_or_def truthy_string_def split: option.splits)

lemma eligible_iff:
  "eligible img \<longleftrightarrow> (\<exists>r. reference img = Some r \<and> startsWith r ''data:image'')"
proof (cases "reference img")
  case None
  then show ?thesis by (simp add: eligible_def truthy_string_def)
next
  case (Some r)
  have "\<not> startsWith [] ''data:image''" by (simp add: startsWith_def)
  then show ?thesis using Some by (auto simp add: eligible_def truthy_string_def ToString_def)
qed


lemma rejects_blank_table_parser: "rejects_blank (table_parser r)"
  by (simp add: rejects_blank_def table_parser_def no_root_def)

section \<open>The claims\<close>









text \<open>
  Claim C4, as amended. The reference of an image element is its \<^verbatim>\<open>href\<close> attribute when
  that is present and not empty, and its \<^verbatim>\<open>xlink:href\<close> attribute otherwise. An element
  whose reference is absent or does not start with \<^verbatim>\<open>data:image\<close>, compared character by
  character, is skipped by the loop, whatever its dimensions.
\<close>

theorem ineligible_reference_skipped:
  "reference img =
     (case getAttribute img ''href'' of
        None \<Rightarrow> getAttribute img ''xlink:href''
      | Some h \<Rightarrow> if h = [] then getAttribute img ''xlink:href'' else Some h)
   \<and> (\<not> (\<exists>r. reference img = Some r \<and> startsWith r ''data:image'') \<longrightarrow>
        scan_images svgW svgH k fname (img # rest) st = scan_images svgW svgH k fname rest st)"
proof -
  have "scan_images svgW svgH k fname (img # rest) st = scan_images svgW svgH k fname rest st"
    if "\<not> (\<exists>r. reference img = Some r \<and> startsWith r ''data:image'')"
    using that unfolding eligible_iff [symmetric]
    by (intro scan_images_skip) (simp add: embedded_image_def)
  with reference_cases [of img] show ?thesis by blast
qed

text \<open>A reference in upper case does not match the prefix.\<close>

theorem ineligible_reference_skipped_witness:
  "reference upper_reference = Some ''DATA:IMAGE/png;base64,AA==''
   \<and> scan_images (Num 100) (Num 100) (Num 2) ''a.svg'' [upper_reference] init_state = init_state"
proof -
  have g: "getAttribute upper_reference ''href'' = Some ''DATA:IMAGE/png;base64,AA==''"
    by code_simp
  have n: "\<not> startsWith ''DATA:IMAGE/png;base64,AA=='' ''data:image''"
    by code_simp
  from ineligible_reference_skipped [of upper_reference "Num 100" "Num 100" "Num 2" "''a.svg''" "[]" init_state]
    g n
  show ?thesis by simp
qed

text \<open>An element with an empty \<^verbatim>\<open>href\<close> and an embedded \<^verbatim>\<open>xlink:href\<close>: the reference
  in the words of the specification is the empty string, and the element is reported.\<close>

theorem ineligible_reference_counterexample:
  "spec_reference empty_href = Some []
   \<and> \<not> startsWith [] ''data:image''
   \<and> reports (Program (host_of (svg_elem ''100'' ''100'' [empty_href])) None ''/work/a.svg'')
       = [OversizedImage (Num 300) (Num 300) (Num 100) (Num 100) ''a.svg'']"
  by code_simp




text \<open>
  Claim C6. When the parser delivers a document whose root element is not named \<^verbatim>\<open>svg\<close>,
  compared character by character, the validation reports exactly one diagnostic: invalidSvg
  with the fixed message "Not a valid SVG file".
\<close>

theorem non_svg_root_invalid:
  assumes "parseSvgContent E content = Inr (Some doc)"
    and "documentElement doc = Some r"
    and "nodeName r \<noteq> ''svg''"
  shows "reports (checkSvgContent E c filePath content init_state) =
           [InvalidSvg ''Not a valid SVG file'']"
  using assms by (simp add: checkSvgContent_def report_def init_state_def)

theorem non_svg_root_invalid_witness:
  "reports (checkSvgContent (host_of upper_root) None ''/work/a.svg'' (xml_of upper_root) init_state)
     = [InvalidSvg ''Not a valid SVG file'']"
proof -
  have p: "parseSvgContent (host_of upper_root) (xml_of upper_root) = Inr (Some (Document (Some upper_root)))"
    by code_simp
  have r: "documentElement (Document (Some upper_root)) = Some upper_root" "nodeName upper_root \<noteq> ''svg''"
    by code_simp+
  from non_svg_root_invalid [OF p r, of None "''/work/a.svg''"]
  show ?thesis .
qed





text \<open>
  Claim C9. On blank input (empty or white space only), with a parser that finds no root
  element in blank input, the validation reports exactly one diagnostic, and it is invalidSvg.
\<close>

theorem blank_input_invalid:
  assumes "rejects_blank (parseSvgContent E)" and "blank content"
  shows "\<exists>msg. reports (checkSvgContent E c filePath content init_state) = [InvalidSvg msg]"
proof -
  have "no_root (parseSvgContent E content)"
    using assms by (simp add: rejects_blank_def)
  then show ?thesis
    by (auto simp add: no_root_def checkSvgContent_def report_def init_state_def
        split: sum.splits option.splits)
qed

theorem blank_input_invalid_witness:
  "(\<exists>msg. reports (checkSvgContent (host ''  '' one_oversized) None ''/work/a.svg'' ''  '' init_state)
       = [InvalidSvg msg])
   \<and> (\<exists>msg. reports (checkSvgContent (host [] one_oversized) None ''/work/a.svg'' [] init_state)
       = [InvalidSvg msg])"
proof -
  have "parseSvgContent (host c one_oversized) = table_parser one_oversized" for c
    by (rule ext) (simp add: parseSvgContent_def host_def)
  then have p: "rejects_blank (parseSvgContent (host c one_oversized))" for c
    by (simp add: rejects_blank_table_parser)
  have b: "blank ''  ''" "blank []" by code_simp+
  from blank_input_invalid [OF p b(1)] blank_input_invalid [OF p b(2)]
  show ?thesis by blast
qed

text \<open>
  Claim C10. A configured \<^verbatim>\<open>maxSizeRatio\<close> of 0 is replaced by the default 2: the ratio is
  2, as when none is configured, and the validator behaves as it does without a configured
  ratio.
\<close>

theorem zero_ratio_is_default:
  "maxSizeRatio_of (Some (opts\<lparr>maxSizeRatio := Some 0\<rparr>)) = Num 2
   \<and> maxSizeRatio_of (Some (opts\<lparr>maxSizeRatio := Some 0\<rparr>)) = maxSizeRatio_of None
   \<and> checkSvgFile E (Some (opts\<lparr>maxSizeRatio := Some 0\<rparr>)) filePath st =
       checkSvgFile E (Some (opts\<lparr>maxSizeRatio := None\<rparr>)) filePath st"
proof -
  have m: "maxSizeRatio_of (Some (opts\<lparr>maxSizeRatio := Some 0\<rparr>)) = Num 2"
    "maxSizeRatio_of (Some (opts\<lparr>maxSizeRatio := None\<rparr>)) = Num 2"
    "maxSizeRatio_of None = Num 2"
    by (simp_all add: maxSizeRatio_of_def options_of_def truthy_number_def)
  have i: "ignorePaths_of (Some (opts\<lparr>maxSizeRatio := Some 0\<rparr>)) =
           ignorePaths_of (Some (opts\<lparr>maxSizeRatio := None\<rparr>))"
    by (simp add: ignorePaths_of_def options_of_def)
  have cc: "checkSvgContent E (Some (opts\<lparr>maxSizeRatio := Some 0\<rparr>)) filePath content s =
        checkSvgContent E (Some (opts\<lparr>maxSizeRatio := None\<rparr>)) filePath content s" for content s
    unfolding checkSvgContent_def m(1,2) ..
  have "checkSvgFile E (Some (opts\<lparr>maxSizeRatio := Some 0\<rparr>)) filePath st =
       checkSvgFile E (Some (opts\<lparr>maxSizeRatio := None\<rparr>)) filePath st"
    unfolding checkSvgFile_def shouldIgnoreFile_def i cc ..
  with m show ?thesis by simp
qed

text \<open>With ratio 0 configured, an image of 150 by 150 in a root of 100 by 100 is not
  reported.\<close>

theorem zero_ratio_is_default_witness:
  "reports (checkSvgFile (host_of one_compliant) (Some \<lparr>maxSizeRatio = Some 0, ignorePaths = None\<rparr>)
      ''/work/a.svg'' init_state) = []"
proof -
  have "reports (checkSvgFile (host_of one_compliant) (Some \<lparr>maxSizeRatio = None, ignorePaths = None\<rparr>)
      ''/work/a.svg'' init_state) = []"
    by code_simp
  with zero_ratio_is_default [of "\<lparr>maxSizeRatio = None, ignorePaths = None\<rparr>" "host_of one_compliant"
      "''/work/a.svg''" init_state]
  show ?thesis by simp
qed

end
